theory Spec2Isabelle
  imports Main
begin

section \<open>The on-demand HLS session manager of go-transcode\<close>

text \<open>
  The source is the Go package \<^verbatim>\<open>hls\<close> (type \<^verbatim>\<open>ManagerCtx\<close> with the methods
  \<^verbatim>\<open>Start\<close>, \<^verbatim>\<open>Stop\<close>, \<^verbatim>\<open>Cleanup\<close>, \<^verbatim>\<open>ServePlaylist\<close> and \<^verbatim>\<open>ServeMedia\<close>).
  The manager is shared by several goroutines.  The model is an interleaving
  transition system: every method call and every step of a goroutine is one
  atomic event on an explicit world state.  \<^verbatim>\<open>Start\<close> and \<^verbatim>\<open>Stop\<close> hold the mutex
  for their whole body; \<^verbatim>\<open>Cleanup\<close>, and \<^verbatim>\<open>ServePlaylist\<close> up to its \<^verbatim>\<open>select\<close>, are
  taken as one event each as well.  What the operating system, the
  clock and the subprocess decide (the result of \<^verbatim>\<open>os.MkdirTemp\<close>, of
  \<^verbatim>\<open>cmd.Start\<close>, of a pipe read, the current time) is a parameter of the event.
\<close>

subsection \<open>Timing constants\<close>

text \<open>Times and durations are counted in nanoseconds, as \<^verbatim>\<open>time.Duration\<close> does.\<close>

definition second :: int where
  "second = 1000000000"

definition cleanupPeriod :: int where
  "cleanupPeriod = 4 * second"

definition playlistTimeout :: int where
  "playlistTimeout = 20 * second"

definition hlsMinimumSegments :: int where
  "hlsMinimumSegments = 2"

definition activeIdleTimeout :: int where
  "activeIdleTimeout = 12 * second"

definition inactiveIdleTimeout :: int where
  "inactiveIdleTimeout = 24 * second"

text \<open>The literal \<^verbatim>\<open>2*time.Second\<close> of \<^verbatim>\<open>Stop\<close>, and the size of the read buffer.\<close>

definition removeDelay :: int where
  "removeDelay = 2 * second"

definition bufSize :: nat where
  "bufSize = 1024"

subsection \<open>Data\<close>

text \<open>A Go \<^verbatim>\<open>error\<close> value is known by its message; \<^verbatim>\<open>nil\<close> is \<open>None\<close>.\<close>

datatype error = ErrorString string

fun errorText :: "error \<Rightarrow> string" where
  "errorText (ErrorString s) = s"

definition errAlreadyStarted :: error where
  "errAlreadyStarted = ErrorString ''has already started''"

text \<open>A run-time panic of a channel operation.\<close>

datatype panic = CloseOfClosedChannel | SendOnClosedChannel

text \<open>
  The part of \<^verbatim>\<open>exec.Cmd\<close> the manager touches: the working directory, the sink
  of the error stream and the process, which is \<^verbatim>\<open>nil\<close> until \<^verbatim>\<open>cmd.Start\<close> has
  spawned it.
\<close>

datatype sink = LogEvent | LogWriter

record Cmd =
  Dir :: string
  Stderr :: sink
  Process :: "nat option"

text \<open>
  \<^verbatim>\<open>ManagerCtx\<close>.  The logger and the mutex carry no data.  The three event hooks
  are kept as flags (set or \<^verbatim>\<open>nil\<close>); their calls are recorded in the world.
  The two channels are names of channel objects kept in the world, since
  \<^verbatim>\<open>Start\<close> replaces both fields while goroutines still hold the old objects.
  The counter \<^verbatim>\<open>sequence\<close> is a Go \<^verbatim>\<open>int\<close>; it is counted here without a bound, a
  generation being far from the \<open>2 ^ 63\<close> reads that would wrap it.
\<close>

record ManagerCtx =
  active :: bool
  onStart :: bool
  onCmdLog :: bool
  onStop :: bool
  cmd :: "Cmd option"
  tempdir :: string
  lastRequest :: int
  sequence :: int
  playlist :: string
  playlistLoad :: nat
  shutdown :: nat

text \<open>
  The goroutine that reads the output pipe is at the read, blocked in the send
  of the first playlist (with the channel and the value the send statement was
  evaluated to, and the error of the read still to be looked at), or gone.
\<close>

datatype reader = R_read | R_send nat string "error option" | R_exit

record response =
  status :: nat
  headers :: "(string \<times> string) list"
  body :: string

text \<open>
  A playlist request is blocked in the \<^verbatim>\<open>select\<close> (holding the two channels the
  select was entered with and the deadline of \<^verbatim>\<open>time.After\<close>) or has replied.
\<close>

datatype request = Waiting nat nat int | Replied response

datatype kill = KillGroup nat | KillProcess nat

datatype hook = HookStart | HookStop

record world =
  mgr :: ManagerCtx
  next_chan :: nat
  closed_chans :: "nat set"
  dirs :: "string set"
  timers :: "int list"
  readers :: "reader list"
  requests :: "request list"
  killed :: "kill list"
  hook_calls :: "hook list"

text \<open>\<^verbatim>\<open>New\<close>: no subprocess, and two channels made.\<close>

definition New :: world where
  "New =
    \<lparr>mgr = \<lparr>active = False, onStart = False, onCmdLog = False, onStop = False,
             cmd = None, tempdir = [], lastRequest = 0, sequence = 0, playlist = [],
             playlistLoad = 0, shutdown = 1\<rparr>,
     next_chan = 2, closed_chans = {}, dirs = {}, timers = [], readers = [],
     requests = [], killed = [], hook_calls = []\<rparr>"

subsection \<open>Start\<close>

text \<open>
  What the environment answers during one \<^verbatim>\<open>Start\<close>: \<^verbatim>\<open>os.MkdirTemp\<close> (an error
  or the name of the new directory), \<^verbatim>\<open>cmd.Start\<close> (an error or the process id)
  and \<^verbatim>\<open>time.Now\<close>.
\<close>

record start_env =
  mkdirTemp :: "error + string"
  cmdStart :: "error + nat"
  startNow :: int

text \<open>
  \<^verbatim>\<open>Start\<close> returns the error (or \<^verbatim>\<open>nil\<close>) and the new world.  On a failed
  \<^verbatim>\<open>os.MkdirTemp\<close> the field \<^verbatim>\<open>tempdir\<close> has already been assigned the empty
  string the call returns.  The factory gives a command that has no process yet.
  The two \<^verbatim>\<open>go\<close> statements start the reader (a new entry of \<open>readers\<close>) and the
  ticker that calls \<^verbatim>\<open>Cleanup\<close> (the event \<open>EvCleanup\<close> below).
\<close>

definition Start :: "start_env \<Rightarrow> world \<Rightarrow> error option \<times> world" where
  "Start env w =
    (let m = mgr w in
     if cmd m \<noteq> None then (Some errAlreadyStarted, w)
     else
       (case mkdirTemp env of
          Inl e \<Rightarrow> (Some e, w\<lparr>mgr := m\<lparr>tempdir := []\<rparr>\<rparr>)
        | Inr d \<Rightarrow>
            (let c = \<lparr>Dir = d, Stderr = (if onCmdLog m then LogEvent else LogWriter),
                       Process = None\<rparr>;
                 m1 = m\<lparr>tempdir := d, cmd := Some c, active := False,
                        lastRequest := startNow env, sequence := 0, playlist := [],
                        playlistLoad := next_chan w, shutdown := Suc (next_chan w)\<rparr>;
                 w1 = w\<lparr>mgr := m1, next_chan := next_chan w + 2,
                        dirs := insert d (dirs w),
                        readers := readers w @ [R_read],
                        hook_calls := hook_calls w @ (if onStart m then [HookStart] else [])\<rparr>
             in (case cmdStart env of
                   Inl e \<Rightarrow> (Some e, w1)
                 | Inr pid \<Rightarrow> (None, w1\<lparr>mgr := m1\<lparr>cmd := Some (c\<lparr>Process := Some pid\<rparr>)\<rparr>\<rparr>)))))"

subsection \<open>Stop and Cleanup\<close>

text \<open>
  \<^verbatim>\<open>Stop\<close> closes the shutdown channel first, which panics when the channel is
  closed already; nothing has been changed by then.  The result of
  \<^verbatim>\<open>syscall.Getpgid\<close> decides which kill is sent.  The handle is cleared inside
  the branch that has a process.  \<^verbatim>\<open>time.AfterFunc\<close> leaves a timer; its function
  reads \<^verbatim>\<open>m.tempdir\<close> when it runs (event \<open>EvTimer\<close>).
\<close>

definition kill_signal :: "error + nat \<Rightarrow> nat \<Rightarrow> kill" where
  "kill_signal pg pid = (case pg of Inr g \<Rightarrow> KillGroup g | Inl e \<Rightarrow> KillProcess pid)"

definition Stop :: "int \<Rightarrow> error + nat \<Rightarrow> world \<Rightarrow> panic + world" where
  "Stop now pg w =
    (let m = mgr w in
     case cmd m of
       None \<Rightarrow> Inr w
     | Some c \<Rightarrow>
         if shutdown m \<in> closed_chans w then Inl CloseOfClosedChannel
         else
           (let w1 = w\<lparr>closed_chans := insert (shutdown m) (closed_chans w)\<rparr>;
                w2 = (case Process c of
                        None \<Rightarrow> w1
                      | Some pid \<Rightarrow>
                          w1\<lparr>killed := killed w1 @ [kill_signal pg pid],
                              mgr := m\<lparr>cmd := None\<rparr>\<rparr>);
                w3 = w2\<lparr>timers := timers w2 @ [now + removeDelay]\<rparr>
            in Inr (w3\<lparr>hook_calls := hook_calls w3 @ (if onStop m then [HookStop] else [])\<rparr>)))"

text \<open>The idle test of \<^verbatim>\<open>Cleanup\<close>, with \<open>diff = time.Since(m.lastRequest)\<close>.\<close>

definition idle_stop :: "int \<Rightarrow> ManagerCtx \<Rightarrow> bool" where
  "idle_stop now m =
    (let diff = now - lastRequest m in
     active m \<and> diff > activeIdleTimeout \<or> \<not> active m \<and> diff > inactiveIdleTimeout)"

definition Cleanup :: "int \<Rightarrow> error + nat \<Rightarrow> world \<Rightarrow> panic + world" where
  "Cleanup now pg w = (if idle_stop now (mgr w) then Stop now pg w else Inr w)"

text \<open>The function of the timer: \<^verbatim>\<open>os.RemoveAll(m.tempdir)\<close>, on the field as it is now.\<close>

definition timer_fire :: "nat \<Rightarrow> int \<Rightarrow> world \<Rightarrow> world option" where
  "timer_fire k now w =
    (if k < length (timers w) \<and> timers w ! k \<le> now
     then Some (w\<lparr>timers := take k (timers w) @ drop (Suc k) (timers w),
                   dirs := dirs w - {tempdir (mgr w)}\<rparr>)
     else None)"

subsection \<open>The reader of the output pipe\<close>

text \<open>
  One turn of the loop of the first goroutine of \<^verbatim>\<open>Start\<close>, from \<^verbatim>\<open>read.Read(buf)\<close>
  returning \<open>n = length bs\<close> bytes and the error \<open>err\<close>, up to the next point where
  the goroutine blocks: the next read, or the send on \<^verbatim>\<open>m.playlistLoad\<close>, whose
  channel and value are evaluated when the send statement is reached.
\<close>

definition reader_read :: "nat \<Rightarrow> string \<Rightarrow> error option \<Rightarrow> world \<Rightarrow> world option" where
  "reader_read r bs err w =
    (if r < length (readers w) \<and> readers w ! r = R_read \<and> length bs \<le> bufSize then
       (let m = mgr w;
            m1 = (if bs \<noteq> [] then m\<lparr>playlist := bs, sequence := sequence m + 1\<rparr> else m);
            fire = (bs \<noteq> [] \<and> sequence m1 = hlsMinimumSegments);
            m2 = (if fire then m1\<lparr>active := True\<rparr> else m1);
            pc = (if fire then R_send (playlistLoad m2) (playlist m2) err
                  else if err \<noteq> None then R_exit else R_read)
        in Some (w\<lparr>mgr := m2, readers := (readers w)[r := pc]\<rparr>))
     else None)"

subsection \<open>ServePlaylist\<close>

text \<open>The three cases of the \<^verbatim>\<open>select\<close> and what the handler writes after each.\<close>

datatype select_case = CaseLoad string | CaseShutdown | CaseTimeout

definition playlistHeaders :: "(string \<times> string) list" where
  "playlistHeaders =
    [(''Content-Type'', ''application/vnd.apple.mpegurl''), (''Cache-Control'', ''no-cache'')]"

text \<open>The end of the handler: the headers and the playlist, with the implicit status 200.\<close>

definition write_playlist :: "string \<Rightarrow> response" where
  "write_playlist p = \<lparr>status = 200, headers = playlistHeaders, body = p\<rparr>"

fun select_reply :: "select_case \<Rightarrow> response" where
  "select_reply (CaseLoad v) = write_playlist v"
| "select_reply CaseShutdown =
     \<lparr>status = 404, headers = [], body = ''404 playlist not found''\<rparr>"
| "select_reply CaseTimeout =
     \<lparr>status = 500, headers = [], body = ''500 not available''\<rparr>"

text \<open>
  \<^verbatim>\<open>ServePlaylist\<close> up to its reply or to the \<^verbatim>\<open>select\<close>.  The local \<^verbatim>\<open>playlist\<close> is
  read before the lazy \<^verbatim>\<open>Start\<close>.
\<close>

definition ServePlaylist :: "int \<Rightarrow> start_env \<Rightarrow> world \<Rightarrow> request \<times> world" where
  "ServePlaylist now env w =
    (let w1 = w\<lparr>mgr := (mgr w)\<lparr>lastRequest := now\<rparr>\<rparr>;
         p = playlist (mgr w1);
         (err, w2) = (if cmd (mgr w1) = None then Start env w1 else (None, w1))
     in case err of
          Some e \<Rightarrow> (Replied \<lparr>status = 500, headers = [], body = errorText e\<rparr>, w2)
        | None \<Rightarrow>
            if active (mgr w2) then (Replied (write_playlist p), w2)
            else (Waiting (playlistLoad (mgr w2)) (shutdown (mgr w2)) (now + playlistTimeout), w2))"

text \<open>
  The communications of the \<^verbatim>\<open>select\<close>.  A send of the reader meets one request
  waiting on the same channel; the reader then runs \<^verbatim>\<open>close(m.playlistLoad)\<close>, on
  the field as it is now, and looks at the error of its read.  A send on a
  closed channel and a close of a closed channel are panics that end the
  program: no next world.
\<close>

definition reader_handoff :: "nat \<Rightarrow> nat \<Rightarrow> world \<Rightarrow> world option" where
  "reader_handoff r i w =
    (if r < length (readers w) \<and> i < length (requests w) then
       (case (readers w ! r, requests w ! i) of
          (R_send ch v err, Waiting pl sd dl) \<Rightarrow>
            if pl = ch \<and> ch \<notin> closed_chans w \<and> playlistLoad (mgr w) \<notin> closed_chans w
            then Some (w\<lparr>requests := (requests w)[i := Replied (select_reply (CaseLoad v))],
                          closed_chans := insert (playlistLoad (mgr w)) (closed_chans w),
                          readers := (readers w)[r := if err \<noteq> None then R_exit else R_read]\<rparr>)
            else None
        | _ \<Rightarrow> None)
     else None)"

text \<open>A receive from the closed channel gives the zero value, the empty string.\<close>

definition recv_closed :: "nat \<Rightarrow> world \<Rightarrow> world option" where
  "recv_closed i w =
    (if i < length (requests w) then
       (case requests w ! i of
          Waiting pl sd dl \<Rightarrow>
            if pl \<in> closed_chans w
            then Some (w\<lparr>requests := (requests w)[i := Replied (select_reply (CaseLoad []))]\<rparr>)
            else None
        | Replied x \<Rightarrow> None)
     else None)"

definition recv_shutdown :: "nat \<Rightarrow> world \<Rightarrow> world option" where
  "recv_shutdown i w =
    (if i < length (requests w) then
       (case requests w ! i of
          Waiting pl sd dl \<Rightarrow>
            if sd \<in> closed_chans w
            then Some (w\<lparr>requests := (requests w)[i := Replied (select_reply CaseShutdown)]\<rparr>)
            else None
        | Replied x \<Rightarrow> None)
     else None)"

definition recv_timeout :: "nat \<Rightarrow> int \<Rightarrow> world \<Rightarrow> world option" where
  "recv_timeout i now w =
    (if i < length (requests w) then
       (case requests w ! i of
          Waiting pl sd dl \<Rightarrow>
            if dl \<le> now
            then Some (w\<lparr>requests := (requests w)[i := Replied (select_reply CaseTimeout)]\<rparr>)
            else None
        | Replied x \<Rightarrow> None)
     else None)"

subsection \<open>ServeMedia\<close>

text \<open>
  \<^verbatim>\<open>path.Base\<close>, \<^verbatim>\<open>path.Clean\<close> and \<^verbatim>\<open>path.Join\<close> of the Go standard library.
  \<^verbatim>\<open>Base\<close> strips the trailing slashes and keeps what follows the last slash.
  \<^verbatim>\<open>Clean\<close> works on the elements between slashes: an empty element and \<^verbatim>\<open>.\<close> are
  dropped, \<^verbatim>\<open>..\<close> removes the element before it, is dropped at the root, and is
  kept at the start of a path that is not rooted.
\<close>

definition path_Base :: "string \<Rightarrow> string" where
  "path_Base p =
    (if p = [] then ''.''
     else
       (let p1 = rev (dropWhile (\<lambda>c. c = CHR ''/'') (rev p));
            p2 = rev (takeWhile (\<lambda>c. c \<noteq> CHR ''/'') (rev p1))
        in if p2 = [] then ''/'' else p2))"

fun split_slash :: "string \<Rightarrow> string list" where
  "split_slash [] = [[]]"
| "split_slash (c # cs) =
     (if c = CHR ''/'' then [] # split_slash cs
      else (case split_slash cs of [] \<Rightarrow> [[c]] | x # xs \<Rightarrow> (c # x) # xs))"

fun join_slash :: "string list \<Rightarrow> string" where
  "join_slash [] = []"
| "join_slash [x] = x"
| "join_slash (x # y # ys) = x @ ''/'' @ join_slash (y # ys)"

text \<open>The elements written so far are kept last first.\<close>

definition clean_elem :: "bool \<Rightarrow> string list \<Rightarrow> string \<Rightarrow> string list" where
  "clean_elem rooted out e =
    (if e = [] \<or> e = ''.'' then out
     else if e = ''..'' then
       (case out of
          [] \<Rightarrow> if rooted then [] else [''..'']
        | x # xs \<Rightarrow> if x = ''..'' \<and> \<not> rooted then ''..'' # out else xs)
     else e # out)"

definition path_Clean :: "string \<Rightarrow> string" where
  "path_Clean p =
    (if p = [] then ''.''
     else
       (let rooted = (hd p = CHR ''/'');
            out = foldl (clean_elem rooted) [] (split_slash p);
            s = (if rooted then ''/'' else []) @ join_slash (rev out)
        in if s = [] then ''.'' else s))"

definition path_Join :: "string list \<Rightarrow> string" where
  "path_Join elems =
    (let xs = filter (\<lambda>e. e \<noteq> []) elems
     in if xs = [] then [] else path_Clean (join_slash xs))"

text \<open>The path \<^verbatim>\<open>ServeMedia\<close> looks up, from \<^verbatim>\<open>r.URL.RequestURI()\<close>.\<close>

definition media_path :: "ManagerCtx \<Rightarrow> string \<Rightarrow> string" where
  "media_path m uri = path_Join [tempdir m, path_Base uri]"

text \<open>A path is inside a directory when it is the directory or continues it after a slash.\<close>

fun starts_with :: "string \<Rightarrow> string \<Rightarrow> bool" where
  "starts_with [] ys = True"
| "starts_with (x # xs) [] = False"
| "starts_with (x # xs) (y # ys) = (x = y \<and> starts_with xs ys)"

definition inside_dir :: "string \<Rightarrow> string \<Rightarrow> bool" where
  "inside_dir d p = (p = d \<or> starts_with (d @ ''/'') p)"

text \<open>
  \<^verbatim>\<open>ServeMedia\<close>.  The file system and the standard library are parameters:
  \<open>notExist p\<close> tells whether \<^verbatim>\<open>os.Stat\<close> on the path fails with an error that
  \<^verbatim>\<open>os.IsNotExist\<close> accepts, and \<open>serveFile uri p\<close> is what \<^verbatim>\<open>http.ServeFile\<close> answers
  to the request for that path, the two headers having been set before.
\<close>

definition ServeMedia ::
  "int \<Rightarrow> string \<Rightarrow> (string \<Rightarrow> bool) \<Rightarrow> (string \<Rightarrow> string \<Rightarrow> response) \<Rightarrow> world
    \<Rightarrow> response \<times> world" where
  "ServeMedia now uri notExist serveFile w =
    (let p = media_path (mgr w) uri in
     if notExist p
     then (\<lparr>status = 404, headers = [], body = ''404 media not found''\<rparr>, w)
     else (serveFile uri p, w\<lparr>mgr := (mgr w)\<lparr>lastRequest := now\<rparr>\<rparr>))"

subsection \<open>Events\<close>

text \<open>
  Every exported method may be called at any time; the goroutines move by the
  events of the reader, of the waiting requests and of the timers.  An event
  that cannot happen in a world, or that ends in a panic, has no next world.
\<close>

datatype event =
    EvStart start_env
  | EvStop int "error + nat"
  | EvCleanup int "error + nat"
  | EvServePlaylist int start_env
  | EvServeMedia int string "string \<Rightarrow> bool" "string \<Rightarrow> string \<Rightarrow> response"
  | EvOnStart bool
  | EvOnCmdLog bool
  | EvOnStop bool
  | EvRead nat string "error option"
  | EvHandoff nat nat
  | EvRecvClosed nat
  | EvShutdown nat
  | EvTimeout nat int
  | EvTimer nat int

definition of_panic :: "panic + world \<Rightarrow> world option" where
  "of_panic x = (case x of Inl p \<Rightarrow> None | Inr w \<Rightarrow> Some w)"

fun step :: "event \<Rightarrow> world \<Rightarrow> world option" where
  "step (EvStart env) w = Some (snd (Start env w))"
| "step (EvStop now pg) w = of_panic (Stop now pg w)"
| "step (EvCleanup now pg) w = of_panic (Cleanup now pg w)"
| "step (EvServePlaylist now env) w =
     (case ServePlaylist now env w of (rq, w') \<Rightarrow> Some (w'\<lparr>requests := requests w' @ [rq]\<rparr>))"
| "step (EvServeMedia now uri ne sf) w = Some (snd (ServeMedia now uri ne sf w))"
| "step (EvOnStart b) w = Some (w\<lparr>mgr := (mgr w)\<lparr>onStart := b\<rparr>\<rparr>)"
| "step (EvOnCmdLog b) w = Some (w\<lparr>mgr := (mgr w)\<lparr>onCmdLog := b\<rparr>\<rparr>)"
| "step (EvOnStop b) w = Some (w\<lparr>mgr := (mgr w)\<lparr>onStop := b\<rparr>\<rparr>)"
| "step (EvRead r bs err) w = reader_read r bs err w"
| "step (EvHandoff r i) w = reader_handoff r i w"
| "step (EvRecvClosed i) w = recv_closed i w"
| "step (EvShutdown i) w = recv_shutdown i w"
| "step (EvTimeout i now) w = recv_timeout i now w"
| "step (EvTimer k now) w = timer_fire k now w"

fun run :: "event list \<Rightarrow> world \<Rightarrow> world option" where
  "run [] w = Some w"
| "run (e # es) w = (case step e w of None \<Rightarrow> None | Some w' \<Rightarrow> run es w')"

subsection \<open>Example worlds\<close>

text \<open>A session after one successful \<^verbatim>\<open>Start\<close>, used to run the model on concrete inputs.\<close>

definition started :: world where
  "started =
    snd (Start \<lparr>mkdirTemp = Inr ''/tmp/go-transcode-hls1'', cmdStart = Inr 4711,
                 startNow = 0\<rparr> New)"

text \<open>A session whose subprocess could not be spawned.\<close>

definition spawn_failed :: world where
  "spawn_failed =
    snd (Start \<lparr>mkdirTemp = Inr ''/tmp/go-transcode-hls1'',
                 cmdStart = Inl (ErrorString ''exec: no such file or directory''),
                 startNow = 0\<rparr> New)"

text \<open>A session whose working directory could not be made.\<close>

definition mkdir_failed :: world where
  "mkdir_failed =
    snd (Start \<lparr>mkdirTemp = Inl (ErrorString ''mkdir: permission denied''),
                 cmdStart = Inr 4711, startNow = 0\<rparr> New)"

text \<open>The environment of a second, successful \<^verbatim>\<open>Start\<close>, two seconds later.\<close>

definition second_start :: start_env where
  "second_start =
    \<lparr>mkdirTemp = Inr ''/tmp/go-transcode-hls2'', cmdStart = Inr 4712,
     startNow = 2 * second\<rparr>"


text \<open>The same with a second request that came in one second later.\<close>

definition two_waiting :: world where
  "two_waiting =
    (case run [EvServePlaylist 0 \<lparr>mkdirTemp = Inr ''/tmp/go-transcode-hls1'',
                                   cmdStart = Inr 4711, startNow = 0\<rparr>,
               EvServePlaylist second second_start,
               EvRead 0 ''#EXTM3U revision 1'' None] New of
       Some w \<Rightarrow> w
     | None \<Rightarrow> New)"

section \<open>Properties\<close>

lemma started_simps:
  "cmd (mgr started) =
     Some \<lparr>Dir = ''/tmp/go-transcode-hls1'', Stderr = LogWriter, Process = Some 4711\<rparr>"
  "active (mgr started) = False"
  "lastRequest (mgr started) = 0"
  "sequence (mgr started) = 0"
  "playlistLoad (mgr started) = 2"
  "shutdown (mgr started) = 3"
  "tempdir (mgr started) = ''/tmp/go-transcode-hls1''"
  "next_chan started = 4"
  "closed_chans started = {}"
  "killed started = []"
  "readers started = [R_read]"
  "requests started = []"
  by (simp_all add: started_def Start_def New_def)

subsection \<open>Start on a running session\<close>

text \<open>
  C5.  When a subprocess is associated with the session, \<^verbatim>\<open>Start\<close> returns the
  error "has already started" and the world it returns is the world it was
  given: no field of the manager, no channel, directory, timer, goroutine, kill
  or hook call differs.
\<close>

theorem Start_twice_conflict:
  "cmd (mgr w) \<noteq> None \<Longrightarrow> Start env w = (Some errAlreadyStarted, w)"
  by (simp add: Start_def)

theorem Start_twice_conflict_witness:
  "cmd (mgr started) \<noteq> None \<and>
   Start \<lparr>mkdirTemp = Inr ''/tmp/go-transcode-hls2'', cmdStart = Inr 4712,
           startNow = second\<rparr> started
     = (Some errAlreadyStarted, started)"
proof -
  have h: "cmd (mgr started) \<noteq> None" by (simp add: started_simps)
  from Start_twice_conflict [OF h] h show ?thesis by simp
qed

subsection \<open>The idle policy\<close>

lemma Stop_running:
  assumes "cmd (mgr w) = Some c" "Process c = Some pid" "shutdown (mgr w) \<notin> closed_chans w"
  shows "\<exists>w'. Stop now pg w = Inr w' \<and> cmd (mgr w') = None \<and>
           killed w' = killed w @ [kill_signal pg pid]"
  using assms by (simp add: Stop_def Let_def)

text \<open>
  C3.  The active-idle timeout is strictly shorter than the inactive-idle
  timeout.  \<^verbatim>\<open>Cleanup\<close> calls \<^verbatim>\<open>Stop\<close> exactly when the session is active and idle
  for longer than the first, or not active and idle for longer than the second;
  otherwise it returns the world unchanged.  On a session with a running
  process whose shutdown channel is open, the process is killed and the handle
  cleared if and only if that test holds.
\<close>

theorem Cleanup_two_tier:
  "activeIdleTimeout < inactiveIdleTimeout \<and>
   idle_stop now (mgr w) =
     (active (mgr w) \<and> now - lastRequest (mgr w) > activeIdleTimeout \<or>
      \<not> active (mgr w) \<and> now - lastRequest (mgr w) > inactiveIdleTimeout) \<and>
   (\<not> idle_stop now (mgr w) \<longrightarrow> Cleanup now pg w = Inr w) \<and>
   (idle_stop now (mgr w) \<longrightarrow> Cleanup now pg w = Stop now pg w) \<and>
   (cmd (mgr w) = Some c \<and> Process c = Some pid \<and> shutdown (mgr w) \<notin> closed_chans w \<longrightarrow>
      (\<exists>w'. Cleanup now pg w = Inr w' \<and>
         (cmd (mgr w') = None) = idle_stop now (mgr w) \<and>
         (killed w' = killed w @ [kill_signal pg pid])
            = idle_stop now (mgr w)))"
proof -
  have t: "activeIdleTimeout < inactiveIdleTimeout"
    by (simp add: activeIdleTimeout_def inactiveIdleTimeout_def second_def)
  have d: "idle_stop now (mgr w) =
     (active (mgr w) \<and> now - lastRequest (mgr w) > activeIdleTimeout \<or>
      \<not> active (mgr w) \<and> now - lastRequest (mgr w) > inactiveIdleTimeout)"
    by (simp add: idle_stop_def Let_def)
  have n: "\<not> idle_stop now (mgr w) \<longrightarrow> Cleanup now pg w = Inr w"
    by (simp add: Cleanup_def)
  have s: "idle_stop now (mgr w) \<longrightarrow> Cleanup now pg w = Stop now pg w"
    by (simp add: Cleanup_def)
  have r: "cmd (mgr w) = Some c \<and> Process c = Some pid \<and> shutdown (mgr w) \<notin> closed_chans w \<longrightarrow>
      (\<exists>w'. Cleanup now pg w = Inr w' \<and>
         (cmd (mgr w') = None) = idle_stop now (mgr w) \<and>
         (killed w' = killed w @ [kill_signal pg pid])
            = idle_stop now (mgr w))"
  proof (intro impI, elim conjE)
    assume a: "cmd (mgr w) = Some c" "Process c = Some pid"
      "shutdown (mgr w) \<notin> closed_chans w"
    show "\<exists>w'. Cleanup now pg w = Inr w' \<and>
         (cmd (mgr w') = None) = idle_stop now (mgr w) \<and>
         (killed w' = killed w @ [kill_signal pg pid])
            = idle_stop now (mgr w)"
    proof (cases "idle_stop now (mgr w)")
      case True
      from Stop_running [OF a, of now pg] True show ?thesis by (auto simp: Cleanup_def)
    next
      case False
      with a show ?thesis by (simp add: Cleanup_def)
    qed
  qed
  from t d n s r show ?thesis by blast
qed

text \<open>
  At 13 seconds of idleness the session that never became active survives and
  the active one is stopped; at 25 seconds the inactive one is stopped too.
\<close>

theorem Cleanup_two_tier_witness:
  "\<not> idle_stop (13 * second) (mgr started) \<and>
   Cleanup (13 * second) (Inr 4711) started = Inr started \<and>
   cmd (mgr started) =
     Some \<lparr>Dir = ''/tmp/go-transcode-hls1'', Stderr = LogWriter, Process = Some 4711\<rparr> \<and>
   shutdown (mgr started) \<notin> closed_chans started \<and>
   (\<exists>w'. Cleanup (25 * second) (Inr 4711) started = Inr w' \<and> cmd (mgr w') = None \<and>
          killed w' = [KillGroup 4711]) \<and>
   (\<exists>w'. Cleanup (13 * second) (Inr 4711)
            (started\<lparr>mgr := (mgr started)\<lparr>active := True\<rparr>\<rparr>) = Inr w' \<and>
          cmd (mgr w') = None \<and> killed w' = [KillGroup 4711])"
proof -
  let ?c = "\<lparr>Dir = ''/tmp/go-transcode-hls1'', Stderr = LogWriter, Process = Some 4711\<rparr>"
  let ?a = "started\<lparr>mgr := (mgr started)\<lparr>active := True\<rparr>\<rparr>"
  have a: "\<not> idle_stop (13 * second) (mgr started)"
    by (simp add: idle_stop_def started_simps inactiveIdleTimeout_def
        activeIdleTimeout_def second_def)
  have b: "idle_stop (25 * second) (mgr started)"
    by (simp add: idle_stop_def started_simps inactiveIdleTimeout_def
        activeIdleTimeout_def second_def)
  have c: "idle_stop (13 * second) (mgr ?a)"
    by (simp add: idle_stop_def started_simps inactiveIdleTimeout_def
        activeIdleTimeout_def second_def)
  have r: "cmd (mgr started) = Some ?c \<and> Process ?c = Some 4711 \<and>
           shutdown (mgr started) \<notin> closed_chans started"
    by (simp add: started_simps)
  have r': "cmd (mgr ?a) = Some ?c \<and> Process ?c = Some 4711 \<and>
            shutdown (mgr ?a) \<notin> closed_chans ?a"
    by (simp add: started_simps)
  have k: "killed started = []" "killed ?a = []"
    by (simp_all add: started_simps)
  note T1 = Cleanup_two_tier [of "13 * second" started "Inr 4711" ?c 4711]
  note T2 = Cleanup_two_tier [of "25 * second" started "Inr 4711" ?c 4711]
  note T3 = Cleanup_two_tier [of "13 * second" ?a "Inr 4711" ?c 4711]
  from T1 [THEN conjunct2, THEN conjunct2, THEN conjunct1] a
  have 1: "Cleanup (13 * second) (Inr 4711) started = Inr started" by (rule mp)
  from mp [OF T2 [THEN conjunct2, THEN conjunct2, THEN conjunct2, THEN conjunct2] r]
  obtain w2 where w2: "Cleanup (25 * second) (Inr 4711) started = Inr w2"
    "(cmd (mgr w2) = None) = idle_stop (25 * second) (mgr started)"
    "(killed w2 = killed started @ [kill_signal (Inr 4711) 4711])
      = idle_stop (25 * second) (mgr started)"
    by (elim exE conjE) (rule that)
  from w2 b k have "Cleanup (25 * second) (Inr 4711) started = Inr w2 \<and>
      cmd (mgr w2) = None \<and> killed w2 = [KillGroup 4711]" by (simp add: kill_signal_def)
  then have 2: "\<exists>w'. Cleanup (25 * second) (Inr 4711) started = Inr w' \<and>
      cmd (mgr w') = None \<and> killed w' = [KillGroup 4711]" ..
  from mp [OF T3 [THEN conjunct2, THEN conjunct2, THEN conjunct2, THEN conjunct2] r']
  obtain w3 where w3: "Cleanup (13 * second) (Inr 4711) ?a = Inr w3"
    "(cmd (mgr w3) = None) = idle_stop (13 * second) (mgr ?a)"
    "(killed w3 = killed ?a @ [kill_signal (Inr 4711) 4711])
      = idle_stop (13 * second) (mgr ?a)"
    by (elim exE conjE) (rule that)
  from w3 c k have "Cleanup (13 * second) (Inr 4711) ?a = Inr w3 \<and>
      cmd (mgr w3) = None \<and> killed w3 = [KillGroup 4711]" by (simp add: kill_signal_def)
  then have 3: "\<exists>w'. Cleanup (13 * second) (Inr 4711) ?a = Inr w' \<and>
      cmd (mgr w') = None \<and> killed w' = [KillGroup 4711]" ..
  from a 1 2 3 r show ?thesis by blast
qed

subsection \<open>A failed Start\<close>

lemma spawn_failed_simps:
  "cmd (mgr spawn_failed) =
     Some \<lparr>Dir = ''/tmp/go-transcode-hls1'', Stderr = LogWriter, Process = None\<rparr>"
  "active (mgr spawn_failed) = False"
  "playlistLoad (mgr spawn_failed) = 2"
  "shutdown (mgr spawn_failed) = 3"
  by (simp_all add: spawn_failed_def Start_def New_def)

text \<open>
  C6.  A \<^verbatim>\<open>Start\<close> whose \<^verbatim>\<open>cmd.Start\<close> fails returns that error unchanged, but
  the handle \<^verbatim>\<open>m.cmd\<close> has been assigned before and is left in place with no
  process: the next \<^verbatim>\<open>Start\<close> returns "has already started" and changes nothing,
  and the next playlist request does not call \<^verbatim>\<open>Start\<close> at all but goes to wait
  on the channels.  On the other failure path, a failed \<^verbatim>\<open>os.MkdirTemp\<close>, the
  handle stays \<^verbatim>\<open>nil\<close> and the next \<^verbatim>\<open>Start\<close> succeeds.
\<close>

theorem Start_spawn_failure_keeps_handle:
  "fst (Start \<lparr>mkdirTemp = Inr ''/tmp/go-transcode-hls1'',
                cmdStart = Inl (ErrorString ''exec: no such file or directory''),
                startNow = 0\<rparr> New)
     = Some (ErrorString ''exec: no such file or directory'') \<and>
   cmd (mgr spawn_failed) =
     Some \<lparr>Dir = ''/tmp/go-transcode-hls1'', Stderr = LogWriter, Process = None\<rparr> \<and>
   Start second_start spawn_failed = (Some errAlreadyStarted, spawn_failed) \<and>
   fst (ServePlaylist (2 * second) second_start spawn_failed)
     = Waiting 2 3 (2 * second + playlistTimeout) \<and>
   cmd (mgr mkdir_failed) = None \<and>
   fst (Start second_start mkdir_failed) = None"
  by (simp add: spawn_failed_simps ServePlaylist_def Let_def)
    (simp add: Start_def New_def spawn_failed_def mkdir_failed_def second_start_def)

subsection \<open>The path of a media request\<close>

text \<open>
  C7.  A request URI that ends in the element \<^verbatim>\<open>..\<close> has the base name \<^verbatim>\<open>..\<close>;
  joined to the working directory \<^verbatim>\<open>/tmp/go-transcode-hls1\<close> it is cleaned to
  \<^verbatim>\<open>/tmp\<close>, the parent, which is not inside the working directory.  When
  \<^verbatim>\<open>/tmp\<close> is the only path that exists, \<^verbatim>\<open>ServeMedia\<close> takes the request as one for
  a file it has found: it records the time of the request and leaves the reply
  to \<^verbatim>\<open>http.ServeFile\<close> on that path.
\<close>

theorem ServeMedia_dotdot_leaves_tempdir:
  "path_Base ''/hls/..'' = ''..'' \<and>
   path_Base ''/x?/..'' = ''..'' \<and>
   path_Base ''/x/?/..'' = ''..'' \<and>
   tempdir (mgr started) = ''/tmp/go-transcode-hls1'' \<and>
   media_path (mgr started) ''/hls/..'' = ''/tmp'' \<and>
   media_path (mgr started) ''/x?/..'' = ''/tmp'' \<and>
   media_path (mgr started) ''/x/?/..'' = ''/tmp'' \<and>
   \<not> inside_dir (tempdir (mgr started)) (media_path (mgr started) ''/x/?/..'') \<and>
   ServeMedia second ''/x/?/..'' (\<lambda>p. p \<noteq> ''/tmp'') serveFile started =
     (serveFile ''/x/?/..'' ''/tmp'', started\<lparr>mgr := (mgr started)\<lparr>lastRequest := second\<rparr>\<rparr>)"
  by (simp add: started_simps media_path_def path_Base_def path_Join_def path_Clean_def
      clean_elem_def inside_dir_def ServeMedia_def Let_def)

subsection \<open>Removal of the working directory\<close>

text \<open>
  C8.  \<^verbatim>\<open>Start\<close>, \<^verbatim>\<open>Stop\<close> at second 1, a new \<^verbatim>\<open>Start\<close> at second 2, and the timer
  of the \<^verbatim>\<open>Stop\<close> at second 3: the timer removes the directory \<^verbatim>\<open>m.tempdir\<close>
  names when it runs, which is the directory of the new generation.  The
  directory of the stopped generation is still there, the new subprocess has
  lost its own, and no timer is left.
\<close>

theorem Stop_timer_removes_new_tempdir:
  "map_option (\<lambda>w. (dirs w, tempdir (mgr w), cmd (mgr w), timers w))
     (run [EvStart \<lparr>mkdirTemp = Inr ''/tmp/go-transcode-hls1'', cmdStart = Inr 4711,
                     startNow = 0\<rparr>,
           EvStop second (Inr 4711),
           EvStart second_start,
           EvTimer 0 (3 * second)] New)
   = Some ({''/tmp/go-transcode-hls1''}, ''/tmp/go-transcode-hls2'',
           Some \<lparr>Dir = ''/tmp/go-transcode-hls2'', Stderr = LogWriter, Process = Some 4712\<rparr>,
           [])"
  by (simp add: New_def Start_def Stop_def timer_fire_def of_panic_def removeDelay_def
      second_def second_start_def kill_signal_def Let_def)

subsection \<open>A handle without a process\<close>

lemmas op_defs =
  Start_def Stop_def Cleanup_def ServePlaylist_def ServeMedia_def reader_read_def
  reader_handoff_def recv_closed_def recv_shutdown_def recv_timeout_def timer_fire_def
  of_panic_def

lemma Stop_no_process:
  "cmd (mgr w) = Some c \<Longrightarrow> Process c = None \<Longrightarrow> Stop now pg w = Inr w' \<Longrightarrow>
   cmd (mgr w') = Some c"
  by (auto simp: Stop_def Let_def split: if_splits)

lemma step_no_process:
  "step ev w = Some w' \<Longrightarrow> cmd (mgr w) = Some c \<Longrightarrow> Process c = None \<Longrightarrow>
   cmd (mgr w') = Some c"
proof (cases ev)
  case (EvStart env)
  then show "step ev w = Some w' \<Longrightarrow> cmd (mgr w) = Some c \<Longrightarrow> ?thesis"
    by (auto simp: Start_def)
next
  case (EvStop now pg)
  then show "step ev w = Some w' \<Longrightarrow> cmd (mgr w) = Some c \<Longrightarrow> Process c = None \<Longrightarrow> ?thesis"
    by (auto simp: of_panic_def split: sum.splits dest: Stop_no_process)
next
  case (EvCleanup now pg)
  then show "step ev w = Some w' \<Longrightarrow> cmd (mgr w) = Some c \<Longrightarrow> Process c = None \<Longrightarrow> ?thesis"
    by (auto simp: of_panic_def Cleanup_def split: sum.splits if_splits dest: Stop_no_process)
next
  case (EvServePlaylist now env)
  then show "step ev w = Some w' \<Longrightarrow> cmd (mgr w) = Some c \<Longrightarrow> ?thesis"
    by (auto simp: ServePlaylist_def Let_def split: if_splits)
next
  case (EvServeMedia now uri ne sf)
  then show "step ev w = Some w' \<Longrightarrow> cmd (mgr w) = Some c \<Longrightarrow> ?thesis"
    by (auto simp: ServeMedia_def Let_def split: if_splits)
next
  case (EvRead r bs err)
  then show "step ev w = Some w' \<Longrightarrow> cmd (mgr w) = Some c \<Longrightarrow> ?thesis"
    by (auto simp: reader_read_def Let_def split: if_splits)
next
  case (EvHandoff r i)
  then show "step ev w = Some w' \<Longrightarrow> cmd (mgr w) = Some c \<Longrightarrow> ?thesis"
    by (auto simp: reader_handoff_def split: if_splits reader.splits request.splits)
next
  case (EvRecvClosed i)
  then show "step ev w = Some w' \<Longrightarrow> cmd (mgr w) = Some c \<Longrightarrow> ?thesis"
    by (auto simp: recv_closed_def split: if_splits request.splits)
next
  case (EvShutdown i)
  then show "step ev w = Some w' \<Longrightarrow> cmd (mgr w) = Some c \<Longrightarrow> ?thesis"
    by (auto simp: recv_shutdown_def split: if_splits request.splits)
next
  case (EvTimeout i now)
  then show "step ev w = Some w' \<Longrightarrow> cmd (mgr w) = Some c \<Longrightarrow> ?thesis"
    by (auto simp: recv_timeout_def split: if_splits request.splits)
next
  case (EvTimer k now)
  then show "step ev w = Some w' \<Longrightarrow> cmd (mgr w) = Some c \<Longrightarrow> ?thesis"
    by (auto simp: timer_fire_def split: if_splits)
qed auto

lemma run_no_process:
  "run evs w = Some w' \<Longrightarrow> cmd (mgr w) = Some c \<Longrightarrow> Process c = None \<Longrightarrow>
   cmd (mgr w') = Some c"
proof (induction evs arbitrary: w)
  case Nil
  then show ?case by simp
next
  case (Cons ev evs)
  from Cons.prems(1) obtain w1 where s: "step ev w = Some w1" and r: "run evs w1 = Some w'"
    by (auto split: option.splits)
  from step_no_process [OF s Cons.prems(2,3)] have "cmd (mgr w1) = Some c" .
  from Cons.IH [OF r this Cons.prems(3)] show ?case .
qed

lemma Start_spawn_failure:
  "cmd (mgr w) = None \<Longrightarrow> mkdirTemp env = Inr d \<Longrightarrow> cmdStart env = Inl e \<Longrightarrow>
   fst (Start env w) = Some e \<and>
   cmd (mgr (snd (Start env w))) =
     Some \<lparr>Dir = d, Stderr = (if onCmdLog (mgr w) then LogEvent else LogWriter),
           Process = None\<rparr>"
  by (simp add: Start_def Let_def)

text \<open>
  C10.  When \<^verbatim>\<open>cmd.Start\<close> fails, \<^verbatim>\<open>Start\<close> returns its error and leaves a handle
  that has no process.  In every world reached from there by any events the
  handle is that same handle: \<^verbatim>\<open>Start\<close> returns "has already started" and
  changes nothing, and a \<^verbatim>\<open>Stop\<close> that returns leaves the handle in place.  No
  event gives the session a process again.
\<close>

theorem spawn_failure_handle_forever:
  assumes "cmd (mgr w) = None" and "mkdirTemp env = Inr d" and "cmdStart env = Inl e"
    and "run evs (snd (Start env w)) = Some w'"
  shows "fst (Start env w) = Some e \<and>
         (\<exists>c. cmd (mgr w') = Some c \<and> Process c = None \<and>
              cmd (mgr (snd (Start env w))) = Some c) \<and>
         Start env' w' = (Some errAlreadyStarted, w') \<and>
         (\<forall>now pg w''. Stop now pg w' = Inr w'' \<longrightarrow> cmd (mgr w'') = cmd (mgr w'))"
proof -
  let ?c = "\<lparr>Dir = d, Stderr = (if onCmdLog (mgr w) then LogEvent else LogWriter),
             Process = None\<rparr>"
  from Start_spawn_failure [OF assms(1-3)]
  have e: "fst (Start env w) = Some e" and c0: "cmd (mgr (snd (Start env w))) = Some ?c"
    by simp_all
  have p: "Process ?c = None" by simp
  from run_no_process [OF assms(4) c0 p] have c': "cmd (mgr w') = Some ?c" .
  then have s: "Start env' w' = (Some errAlreadyStarted, w')" by (simp add: Start_def)
  have t: "\<forall>now pg w''. Stop now pg w' = Inr w'' \<longrightarrow> cmd (mgr w'') = cmd (mgr w')"
    using Stop_no_process [OF c' p] c' by simp
  from e c0 c' p s t show ?thesis by blast
qed

text \<open>
  After the failed spawn: a playlist request, the idle reaper after 25 seconds
  (its \<^verbatim>\<open>Stop\<close> closes the shutdown channel and keeps the handle), the reply to
  the request and the timer.
\<close>

theorem spawn_failure_handle_forever_witness:
  "fst (Start \<lparr>mkdirTemp = Inr ''/tmp/go-transcode-hls1'',
                cmdStart = Inl (ErrorString ''exec: no such file or directory''),
                startNow = 0\<rparr> New)
     = Some (ErrorString ''exec: no such file or directory'') \<and>
   (\<exists>w'. run [EvServePlaylist second second_start, EvCleanup (26 * second) (Inr 0),
              EvShutdown 0, EvTimer 0 (30 * second)] spawn_failed = Some w' \<and>
         cmd (mgr w') =
           Some \<lparr>Dir = ''/tmp/go-transcode-hls1'', Stderr = LogWriter, Process = None\<rparr> \<and>
         Start second_start w' = (Some errAlreadyStarted, w') \<and>
         Stop (31 * second) (Inr 0) w' = Inl CloseOfClosedChannel)"
proof -
  let ?env = "\<lparr>mkdirTemp = Inr ''/tmp/go-transcode-hls1'',
                cmdStart = Inl (ErrorString ''exec: no such file or directory''),
                startNow = 0\<rparr>"
  let ?evs = "[EvServePlaylist second second_start, EvCleanup (26 * second) (Inr 0),
              EvShutdown 0, EvTimer 0 (30 * second)]"
  have 1: "cmd (mgr New) = None" by (simp add: New_def)
  have 2: "mkdirTemp ?env = Inr ''/tmp/go-transcode-hls1''" by simp
  have 3: "cmdStart ?env = Inl (ErrorString ''exec: no such file or directory'')" by simp
  obtain w' where 4: "run ?evs (snd (Start ?env New)) = Some w'"
    and 5: "shutdown (mgr w') \<in> closed_chans w'"
    by (simp add: New_def op_defs idle_stop_def inactiveIdleTimeout_def activeIdleTimeout_def
        playlistTimeout_def removeDelay_def second_def second_start_def Let_def)
  from spawn_failure_handle_forever [OF 1 2 3 4, of second_start]
  have 6: "fst (Start ?env New) = Some (ErrorString ''exec: no such file or directory'')"
    and 7: "\<exists>c. cmd (mgr w') = Some c \<and> Process c = None \<and>
              cmd (mgr (snd (Start ?env New))) = Some c"
    and 8: "Start second_start w' = (Some errAlreadyStarted, w')"
    by blast+
  from 7 have 9: "cmd (mgr w') =
      Some \<lparr>Dir = ''/tmp/go-transcode-hls1'', Stderr = LogWriter, Process = None\<rparr>"
    by (auto simp: Start_def New_def)
  from 9 5 have 10: "Stop (31 * second) (Inr 0) w' = Inl CloseOfClosedChannel"
    by (simp add: Stop_def)
  from 4 6 8 9 10 show ?thesis by (auto simp: spawn_failed_def)
qed

subsection \<open>The reader\<close>

lemma reader_read_effect:
  assumes "reader_read r bs err w = Some w'"
  shows "r < length (readers w)" and "readers w ! r = R_read" and "length bs \<le> bufSize"
    and "bs \<noteq> [] \<Longrightarrow> playlist (mgr w') = bs"
    and "bs \<noteq> [] \<Longrightarrow> sequence (mgr w') = sequence (mgr w) + 1"
    and "bs = [] \<Longrightarrow> mgr w' = mgr w"
    and "bs \<noteq> [] \<Longrightarrow> sequence (mgr w) + 1 = hlsMinimumSegments \<Longrightarrow>
           active (mgr w') \<and> readers w' ! r = R_send (playlistLoad (mgr w)) bs err"
    and "bs = [] \<or> sequence (mgr w) + 1 \<noteq> hlsMinimumSegments \<Longrightarrow>
           readers w' ! r = (if err \<noteq> None then R_exit else R_read) \<and>
           active (mgr w') = active (mgr w)"
    and "length (readers w') = length (readers w)"
    and "requests w' = requests w" and "closed_chans w' = closed_chans w"
    and "next_chan w' = next_chan w" and "playlistLoad (mgr w') = playlistLoad (mgr w)"
  using assms by (auto simp: reader_read_def Let_def split: if_splits)










subsection \<open>Activation and the first playlist\<close>










lemma reader_handoff_enabled:
  assumes "r < length (readers w)" and "readers w ! r = R_send ch v err"
    and "i < length (requests w)" and "requests w ! i = Waiting ch sd dl"
    and "ch \<notin> closed_chans w" and "playlistLoad (mgr w) = ch"
  shows "reader_handoff r i w =
     Some (w\<lparr>requests := (requests w)[i := Replied (write_playlist v)],
             closed_chans := insert ch (closed_chans w),
             readers := (readers w)[r := if err \<noteq> None then R_exit else R_read]\<rparr>)"
  using assms by (simp add: reader_handoff_def)


subsection \<open>Several requests waiting at the activation\<close>

lemma reader_handoff_closed_none:
  assumes "j < length (requests w)" and "requests w ! j = Waiting ch sd dl"
    and "ch \<in> closed_chans w"
  shows "reader_handoff r j w = None"
  using assms by (auto simp: reader_handoff_def split: reader.splits)

text \<open>
  C9.  Two requests wait on the handoff channel when the read that reaches the
  minimum arrives.  The send is taken by one of them, which replies 200 with the
  bytes read.  The other one is still waiting, on a channel that is now closed:
  no send can reach it any more, its receive gives the empty string, and it
  replies 200 with an empty body while the playlist of the manager is the
  bytes read.  As long as its shutdown channel is open and its deadline has
  not come, the other two cases of its \<^verbatim>\<open>select\<close> cannot be taken.
\<close>

theorem handoff_other_waiter_empty:
  assumes "reader_read r bs err w = Some w1" and "bs \<noteq> []"
    and "sequence (mgr w) + 1 = hlsMinimumSegments"
    and "i < length (requests w)" and "j < length (requests w)" and "i \<noteq> j"
    and "requests w ! i = Waiting (playlistLoad (mgr w)) sdi dli"
    and "requests w ! j = Waiting (playlistLoad (mgr w)) sdj dlj"
    and "playlistLoad (mgr w) \<notin> closed_chans w"
  shows "\<exists>w2 w3. reader_handoff r i w1 = Some w2 \<and>
           requests w2 ! i = Replied (write_playlist bs) \<and>
           requests w2 ! j = Waiting (playlistLoad (mgr w)) sdj dlj \<and>
           playlistLoad (mgr w) \<in> closed_chans w2 \<and>
           (\<forall>r'. reader_handoff r' j w2 = None) \<and>
           (sdj \<notin> closed_chans w2 \<longrightarrow> recv_shutdown j w2 = None) \<and>
           (\<forall>now. now < dlj \<longrightarrow> recv_timeout j now w2 = None) \<and>
           recv_closed j w2 = Some w3 \<and>
           requests w3 ! i = Replied (write_playlist bs) \<and>
           requests w3 ! j = Replied \<lparr>status = 200, headers = playlistHeaders, body = []\<rparr> \<and>
           playlist (mgr w3) = bs \<and> playlist (mgr w3) \<noteq> []"
proof -
  note e = reader_read_effect [OF assms(1)]
  let ?ch = "playlistLoad (mgr w)"
  let ?w2 = "w1\<lparr>requests := (requests w1)[i := Replied (write_playlist bs)],
               closed_chans := insert ?ch (closed_chans w1),
               readers := (readers w1)[r := if err \<noteq> None then R_exit else R_read]\<rparr>"
  let ?w3 = "?w2\<lparr>requests := (requests ?w2)[j := Replied (select_reply (CaseLoad []))]\<rparr>"
  from e(1) e(9) have rl: "r < length (readers w1)" by simp
  from e(7) [OF assms(2,3)] have pc: "readers w1 ! r = R_send ?ch bs err" by simp
  from assms(4,7) e(10) have wi: "i < length (requests w1)"
    "requests w1 ! i = Waiting ?ch sdi dli" by simp_all
  from assms(9) e(11) have op: "?ch \<notin> closed_chans w1" by simp
  from e(13) have pl: "playlistLoad (mgr w1) = ?ch" .
  from reader_handoff_enabled [OF rl pc wi op pl]
  have 1: "reader_handoff r i w1 = Some ?w2" .
  have 2: "requests ?w2 ! i = Replied (write_playlist bs)"
    using wi(1) by simp
  have 3: "requests ?w2 ! j = Waiting ?ch sdj dlj"
    using assms(5,6,8) e(10) by simp
  have jl: "j < length (requests ?w2)" using assms(5) e(10) by simp
  have 4: "?ch \<in> closed_chans ?w2" by simp
  have 5: "\<forall>r'. reader_handoff r' j ?w2 = None"
    using reader_handoff_closed_none [OF jl 3 4] by blast
  have 6: "sdj \<notin> closed_chans ?w2 \<longrightarrow> recv_shutdown j ?w2 = None"
    using jl 3 by (simp add: recv_shutdown_def)
  have 7: "\<forall>now. now < dlj \<longrightarrow> recv_timeout j now ?w2 = None"
    using jl 3 by (simp add: recv_timeout_def)
  have 8: "recv_closed j ?w2 = Some ?w3"
    using jl 3 by (simp add: recv_closed_def)
  have 9: "requests ?w3 ! i = Replied (write_playlist bs)"
    using wi(1) assms(6) by simp
  have 10: "requests ?w3 ! j = Replied \<lparr>status = 200, headers = playlistHeaders, body = []\<rparr>"
    using assms(5) e(10) by (simp add: write_playlist_def)
  have 11: "playlist (mgr ?w3) = bs \<and> playlist (mgr ?w3) \<noteq> []"
    using e(4) [OF assms(2)] assms(2) by simp
  from 1 2 3 4 5 6 7 8 9 10 11 show ?thesis by blast
qed
lemma two_waiting_simps:
  "active (mgr two_waiting) = False"
  "sequence (mgr two_waiting) = 1"
  "playlistLoad (mgr two_waiting) = 2"
  "closed_chans two_waiting = {}"
  "readers two_waiting = [R_read]"
  "requests two_waiting = [Waiting 2 3 playlistTimeout, Waiting 2 3 (second + playlistTimeout)]"
  by (simp_all add: two_waiting_def New_def ServePlaylist_def Start_def reader_read_def
      bufSize_def hlsMinimumSegments_def second_start_def Let_def)

text \<open>
  Two requests wait; the second revision goes to the first of them and the
  second one replies with an empty body.
\<close>

theorem handoff_other_waiter_empty_witness:
  "\<exists>w1 w2 w3. reader_read 0 ''#EXTM3U revision 2'' None two_waiting = Some w1 \<and>
      reader_handoff 0 0 w1 = Some w2 \<and> recv_closed 1 w2 = Some w3 \<and>
      requests w3 ! 0 = Replied (write_playlist ''#EXTM3U revision 2'') \<and>
      requests w3 ! 1 = Replied \<lparr>status = 200, headers = playlistHeaders, body = []\<rparr> \<and>
      playlist (mgr w3) = ''#EXTM3U revision 2''"
proof -
  obtain w1 where h: "reader_read 0 ''#EXTM3U revision 2'' None two_waiting = Some w1"
    by (simp add: reader_read_def two_waiting_simps bufSize_def Let_def)
  have n: "''#EXTM3U revision 2'' \<noteq> []" by simp
  have s: "sequence (mgr two_waiting) + 1 = hlsMinimumSegments"
    by (simp add: two_waiting_simps hlsMinimumSegments_def)
  have i: "0 < length (requests two_waiting)" and j: "1 < length (requests two_waiting)"
    by (simp_all add: two_waiting_simps)
  have d: "(0::nat) \<noteq> 1" by simp
  have wi: "requests two_waiting ! 0 = Waiting (playlistLoad (mgr two_waiting)) 3 playlistTimeout"
    by (simp add: two_waiting_simps)
  have wj: "requests two_waiting ! 1 =
      Waiting (playlistLoad (mgr two_waiting)) 3 (second + playlistTimeout)"
    by (simp add: two_waiting_simps)
  have op: "playlistLoad (mgr two_waiting) \<notin> closed_chans two_waiting"
    by (simp add: two_waiting_simps)
  from handoff_other_waiter_empty [OF h n s i j d wi wj op] h
  show ?thesis by blast
qed

subsection \<open>The replies of a playlist request\<close>















end
